theory Spec2Isabelle
  imports Complex_Main "HOL-Library.Sublist"
begin

section \<open>The SpaceX launch dashboard: data frame, loader and the two chart callbacks\<close>

text \<open>
  The program is one Python module, \<^verbatim>\<open>spacex-dash-app.py\<close>. At import time it reads a
  CSV file into a pandas data frame, drops the rows with a missing value in three
  columns, derives the payload bounds and the list of launch sites, and declares two
  callbacks, \<^verbatim>\<open>get_pie_chart\<close> and \<^verbatim>\<open>get_scatter_chart\<close>, that filter the
  frame and hand the result to a plotting call.

  Modelling decisions:
  \<^item> a data frame is its list of column names and its list of rows; a row holds the four
    columns the program touches, each cell being \<open>None\<close> when the value is missing (NaN).
    The cell of a column that the frame does not have is never read;
  \<^item> a payload cell holds the exact value of its number, a rational; whether the column
    is stored as 64-bit integers or as 64-bit floats is a field of the frame. A bound of
    the payload range is a Python \<open>int\<close> or \<open>float\<close>. A comparison of the column with
    a bound is done as numpy does it: between integers when both are, and otherwise
    between 64-bit floats, after rounding the integer side to the nearest float;
  \<^item> every exception the module can raise is a value of \<open>error\<close>; a function that may
    raise returns \<open>error + 'a\<close>;
  \<^item> the module-level variables are the fields of \<open>app_state\<close>; the log written by
    \<^verbatim>\<open>logging\<close> is a field of it too, so that the callbacks' only effect is visible;
  \<^item> a pie figure holds its title and the labels of the rows it is given; a scatter
    figure holds its title and its traces, one for each booster category, as
    \<^verbatim>\<open>px.scatter\<close> builds them for its \<^verbatim>\<open>color\<close> argument.
\<close>

subsection \<open>Data\<close>

datatype error =
    ReadError
  | KeyError "string list"
  | ValueError string
  | RunError

record row =
  Launch_Site :: "string option"
  Payload_Mass :: "rat option"
  Class :: "int option"
  Booster_Version_Category :: "string option"

datatype dtype = Int64 | Float64

record frame =
  columns :: "string list"
  payload_dtype :: dtype
  rows :: "row list"

text \<open>A number as Python has it: an \<open>int\<close>, or a \<open>float\<close> given by its exact value.\<close>

datatype number = PyInt int | PyFloat rat

text \<open>What \<^verbatim>\<open>pd.read_csv("spacex_launch_dash.csv")\<close> finds: a file it cannot read or
  parse, or a table.\<close>

datatype csv_source = Unreadable | Parsed frame

datatype log_entry =
    CsvLoaded
  | DataCleaned nat
  | PayloadRange "rat option" "rat option"
  | PieDebug string
  | ScatterDebug string "number list"

record app_state =
  spacex_df :: frame
  max_payload :: "rat option"
  min_payload :: "rat option"
  launch_sites :: "string option list"
  log :: "log_entry list"

record pie_fig =
  pie_title :: string
  pie_names :: "int option list"

record scatter_trace =
  trace_name :: "string option"
  trace_rows :: "row list"

record scatter_fig =
  scatter_title :: string
  scatter_traces :: "scatter_trace list"

definition col_payload :: string where
  "col_payload = ''Payload Mass (kg)''"

definition col_site :: string where
  "col_site = ''Launch Site''"

definition col_class :: string where
  "col_class = ''class''"

definition col_booster :: string where
  "col_booster = ''Booster Version Category''"

subsection \<open>The pandas operations the module uses\<close>

definition read_csv :: "csv_source \<Rightarrow> error + frame" where
  "read_csv src = (case src of Unreadable \<Rightarrow> Inl ReadError | Parsed df \<Rightarrow> Inr df)"

text \<open>A row survives \<^verbatim>\<open>dropna\<close> when none of the three cells is missing.\<close>

definition complete :: "row \<Rightarrow> bool" where
  "complete r \<longleftrightarrow> Payload_Mass r \<noteq> None \<and> Launch_Site r \<noteq> None \<and> Class r \<noteq> None"

text \<open>\<^verbatim>\<open>dropna(subset=['Payload Mass (kg)', 'Launch Site', 'class'], inplace=True)\<close>:
  pandas raises KeyError with the subset's columns that the frame lacks, and otherwise
  keeps the complete rows, in their order.\<close>

definition dropna :: "frame \<Rightarrow> error + frame" where
  "dropna df =
     (case filter (\<lambda>c. c \<notin> set (columns df)) [col_payload, col_site, col_class] of
        [] \<Rightarrow> Inr (df\<lparr>rows := filter complete (rows df)\<rparr>)
      | missing \<Rightarrow> Inl (KeyError missing))"

text \<open>\<^verbatim>\<open>Series.max()\<close> and \<^verbatim>\<open>Series.min()\<close> skip missing values and give NaN
  on a series with no value.\<close>

fun series_max :: "rat option list \<Rightarrow> rat option" where
  "series_max [] = None"
| "series_max (None # xs) = series_max xs"
| "series_max (Some v # xs) =
     (case series_max xs of None \<Rightarrow> Some v | Some m \<Rightarrow> Some (max v m))"

fun series_min :: "rat option list \<Rightarrow> rat option" where
  "series_min [] = None"
| "series_min (None # xs) = series_min xs"
| "series_min (Some v # xs) =
     (case series_min xs of None \<Rightarrow> Some v | Some m \<Rightarrow> Some (min v m))"

text \<open>\<^verbatim>\<open>Series.unique()\<close> walks the values with a table of those met so far and
  appends each new one.\<close>

fun uniques :: "'a list \<Rightarrow> 'a list \<Rightarrow> 'a list" where
  "uniques seen [] = seen"
| "uniques seen (x # xs) =
     (if x \<in> set seen then uniques seen xs else uniques (seen @ [x]) xs)"

definition unique :: "'a list \<Rightarrow> 'a list" where
  "unique xs = uniques [] xs"

subsection \<open>Module start: lines 13 to 35\<close>

definition load :: "csv_source \<Rightarrow> error + app_state" where
  "load src =
     (case read_csv src of
        Inl e \<Rightarrow> Inl e
      | Inr df0 \<Rightarrow>
          (case dropna df0 of
             Inl e \<Rightarrow> Inl e
           | Inr df \<Rightarrow>
               (let mx = series_max (map Payload_Mass (rows df));
                    mn = series_min (map Payload_Mass (rows df))
                in Inr \<lparr>spacex_df = df,
                        max_payload = mx,
                        min_payload = mn,
                        launch_sites = unique (map Launch_Site (rows df)),
                        log = [CsvLoaded, DataCleaned (length (rows df)),
                               PayloadRange mn mx]\<rparr>)))"

text \<open>The process dies with the exception raised while the data is loaded; otherwise it
  goes on to build the application (\<^verbatim>\<open>dash.Dash\<close>, the layout, the callbacks) and to
  \<^verbatim>\<open>app.run\<close>, lines 30 to 72 and 139 to 145. These belong to the web framework: the
  second argument says whether they raise (the exception of \<^verbatim>\<open>app.run\<close> is logged
  and raised again), and then the process dies too. Otherwise it serves requests from
  the loaded state.\<close>

datatype process = Crashed error | Serving app_state

definition startup :: "csv_source \<Rightarrow> error option \<Rightarrow> process" where
  "startup src run_exc =
     (case load src of
        Inl e \<Rightarrow> Crashed e
      | Inr st \<Rightarrow> (case run_exc of Some e \<Rightarrow> Crashed e | None \<Rightarrow> Serving st))"

subsection \<open>The plotting calls\<close>

text \<open>\<^verbatim>\<open>px.pie(df, names='class', color='class', ...)\<close> and
  \<^verbatim>\<open>px.scatter(df, x='Payload Mass (kg)', y='class', color='Booster Version Category', ...)\<close>
  raise ValueError when a column they are told to use is not in the frame.\<close>

definition px_pie :: "frame \<Rightarrow> string \<Rightarrow> error + pie_fig" where
  "px_pie df title =
     (if col_class \<in> set (columns df)
      then Inr \<lparr>pie_title = title, pie_names = map Class (rows df)\<rparr>
      else Inl (ValueError col_class))"

text \<open>The traces of a scatter figure with a \<^verbatim>\<open>color\<close> column. When the column has
  one distinct value (a missing value counts as one), the figure has a single trace
  with all the rows. Otherwise the rows are grouped by the column, the groups coming in
  the order in which their values are first met and each keeping the order of its rows;
  grouping leaves out the rows whose value is missing.\<close>

definition color_groups :: "row list \<Rightarrow> scatter_trace list" where
  "color_groups rs =
     (case unique (map Booster_Version_Category rs) of
        [u] \<Rightarrow> [\<lparr>trace_name = u, trace_rows = rs\<rparr>]
      | us \<Rightarrow>
          map (\<lambda>c. \<lparr>trace_name = c,
                     trace_rows = filter (\<lambda>r. Booster_Version_Category r = c) rs\<rparr>)
            (filter (\<lambda>c. c \<noteq> None) us))"

definition px_scatter :: "frame \<Rightarrow> string \<Rightarrow> error + scatter_fig" where
  "px_scatter df title =
     (case filter (\<lambda>c. c \<notin> set (columns df)) [col_payload, col_class, col_booster] of
        [] \<Rightarrow> Inr \<lparr>scatter_title = title, scatter_traces = color_groups (rows df)\<rparr>
      | c # _ \<Rightarrow> Inl (ValueError c))"

text \<open>The rows a scatter figure plots, trace after trace.\<close>

definition scatter_frame :: "scatter_fig \<Rightarrow> row list" where
  "scatter_frame fig = concat (map trace_rows (scatter_traces fig))"

text \<open>A pie trace with labels and no values shows, for each label, the number of times
  it occurs: the slices of the pie chart.\<close>

definition pie_counts :: "'a list \<Rightarrow> ('a \<times> nat) list" where
  "pie_counts labels = map (\<lambda>c. (c, count_list labels c)) (unique labels)"

subsection \<open>The callbacks: lines 79 to 137\<close>

text \<open>The 64-bit float nearest to an integer, ties going to the even significand of 53
  bits. Integers up to \<open>2 ^ 53\<close> in magnitude are floats themselves.\<close>

fun bit_length :: "nat \<Rightarrow> nat" where
  "bit_length n = (if n = 0 then 0 else Suc (bit_length (n div 2)))"

declare bit_length.simps [simp del]

definition to_float64 :: "int \<Rightarrow> rat" where
  "to_float64 n =
     (if \<bar>n\<bar> \<le> 2 ^ 53 then of_int n
      else
        (let m = nat \<bar>n\<bar>;
             e = bit_length m - 53;
             q = m div 2 ^ e;
             r = m mod 2 ^ e;
             q' = (if 2 ^ (e - 1) < r \<or> (r = 2 ^ (e - 1) \<and> odd q) then q + 1 else q)
         in of_int (sgn n * int (q' * 2 ^ e))))"

fun value_of :: "number \<Rightarrow> rat" where
  "value_of (PyInt n) = of_int n"
| "value_of (PyFloat f) = f"

text \<open>The two sides of a comparison of a payload cell with a bound, as numpy compares
  them: exactly when the column and the bound are both integers or both floats; with the
  cell rounded to a float when an integer column meets a float bound; with the bound
  rounded to a float when a float column meets an integer bound. A cell that is not an
  integer is a float already.\<close>

definition cell_side :: "dtype \<Rightarrow> number \<Rightarrow> rat \<Rightarrow> rat" where
  "cell_side dt b p =
     (case (dt, b) of
        (Int64, PyFloat f) \<Rightarrow> (if p = of_int \<lfloor>p\<rfloor> then to_float64 \<lfloor>p\<rfloor> else p)
      | _ \<Rightarrow> p)"

definition bound_side :: "dtype \<Rightarrow> number \<Rightarrow> rat" where
  "bound_side dt b =
     (case (dt, b) of
        (Float64, PyInt n) \<Rightarrow> to_float64 n
      | _ \<Rightarrow> value_of b)"

text \<open>\<^verbatim>\<open>(df['Payload Mass (kg)'] >= low) & (df['Payload Mass (kg)'] <= high)\<close>; a
  comparison with a missing value is false in pandas.\<close>

definition in_range :: "dtype \<Rightarrow> number \<Rightarrow> number \<Rightarrow> row \<Rightarrow> bool" where
  "in_range dt low high r =
     (case Payload_Mass r of
        None \<Rightarrow> False
      | Some p \<Rightarrow> bound_side dt low \<le> cell_side dt low p \<and>
                  cell_side dt high p \<le> bound_side dt high)"

definition at_site :: "string \<Rightarrow> row \<Rightarrow> bool" where
  "at_site site r \<longleftrightarrow> Launch_Site r = Some site"

definition get_pie_chart :: "app_state \<Rightarrow> string \<Rightarrow> (error + pie_fig) \<times> app_state" where
  "get_pie_chart st entered_site =
     (let st' = st\<lparr>log := log st @ [PieDebug entered_site]\<rparr>;
          df = spacex_df st'
      in if entered_site = ''ALL''
         then (px_pie df ''Total Launch Outcomes for All Sites'', st')
         else if col_site \<notin> set (columns df)
         then (Inl (KeyError [col_site]), st')
         else (px_pie (df\<lparr>rows := filter (at_site entered_site) (rows df)\<rparr>)
                 (''Total Launch Outcomes for '' @ entered_site), st'))"

definition get_scatter_chart ::
  "app_state \<Rightarrow> string \<Rightarrow> number list \<Rightarrow> (error + scatter_fig) \<times> app_state" where
  "get_scatter_chart st selected_site payload_range =
     (let st' = st\<lparr>log := log st @ [ScatterDebug selected_site payload_range]\<rparr>;
          df = spacex_df st'
      in case payload_range of
           [low, high] \<Rightarrow>
             if col_payload \<notin> set (columns df)
             then (Inl (KeyError [col_payload]), st')
             else
               (let filtered_df =
                      df\<lparr>rows := filter (in_range (payload_dtype df) low high) (rows df)\<rparr>
                in if selected_site = ''ALL''
                   then (px_scatter filtered_df
                           ''Correlation Between Payload and Success for All Sites'', st')
                   else if col_site \<notin> set (columns filtered_df)
                   then (Inl (KeyError [col_site]), st')
                   else (px_scatter
                           (filtered_df\<lparr>rows := filter (at_site selected_site)
                                                    (rows filtered_df)\<rparr>)
                           (''Correlation Between Payload and Success for '' @ selected_site),
                         st'))
         | _ \<Rightarrow> (Inl (ValueError ''unpack''), st'))"

subsection \<open>Serving a sequence of filter changes\<close>

datatype request = PieRequest string | ScatterRequest string "number list"

datatype response = PieResponse "error + pie_fig" | ScatterResponse "error + scatter_fig"

fun handle :: "app_state \<Rightarrow> request \<Rightarrow> response \<times> app_state" where
  "handle st (PieRequest site) =
     (case get_pie_chart st site of (r, st') \<Rightarrow> (PieResponse r, st'))"
| "handle st (ScatterRequest site pr) =
     (case get_scatter_chart st site pr of (r, st') \<Rightarrow> (ScatterResponse r, st'))"

fun serve :: "app_state \<Rightarrow> request list \<Rightarrow> response list \<times> app_state" where
  "serve st [] = ([], st)"
| "serve st (q # qs) =
     (case handle st q of (r, st') \<Rightarrow>
        (case serve st' qs of (rs, st'') \<Rightarrow> (r # rs, st'')))"

subsection \<open>A small source file\<close>

text \<open>Three complete launches, one launch with no payload mass and one with no booster
  category.\<close>

definition example_rows :: "row list" where
  "example_rows =
     [\<lparr>Launch_Site = Some ''CCAFS'', Payload_Mass = Some 500, Class = Some 0,
        Booster_Version_Category = Some ''v1''\<rparr>,
      \<lparr>Launch_Site = Some ''CCAFS'', Payload_Mass = None, Class = Some 1,
        Booster_Version_Category = Some ''v1''\<rparr>,
      \<lparr>Launch_Site = Some ''CCAFS'', Payload_Mass = Some 2500, Class = Some 1,
        Booster_Version_Category = Some ''v1''\<rparr>,
      \<lparr>Launch_Site = Some ''KSC'', Payload_Mass = Some 3000, Class = Some 1,
        Booster_Version_Category = None\<rparr>]"

definition example_csv :: csv_source where
  "example_csv =
     Parsed \<lparr>columns = [''Launch Site'', ''Payload Mass (kg)'', ''class'',
                        ''Booster Version Category''],
             payload_dtype = Float64,
             rows = example_rows\<rparr>"

definition no_booster_csv :: csv_source where
  "no_booster_csv =
     Parsed \<lparr>columns = [''Launch Site'', ''Payload Mass (kg)'', ''class''],
             payload_dtype = Float64,
             rows = example_rows\<rparr>"

text \<open>What loading the first of them gives: the launch with no payload mass is gone.\<close>

definition example_df :: frame where
  "example_df =
     \<lparr>columns = [''Launch Site'', ''Payload Mass (kg)'', ''class'',
                  ''Booster Version Category''],
      payload_dtype = Float64,
      rows =
        [\<lparr>Launch_Site = Some ''CCAFS'', Payload_Mass = Some 500, Class = Some 0,
           Booster_Version_Category = Some ''v1''\<rparr>,
         \<lparr>Launch_Site = Some ''CCAFS'', Payload_Mass = Some 2500, Class = Some 1,
           Booster_Version_Category = Some ''v1''\<rparr>,
         \<lparr>Launch_Site = Some ''KSC'', Payload_Mass = Some 3000, Class = Some 1,
           Booster_Version_Category = None\<rparr>]\<rparr>"

definition example_state :: app_state where
  "example_state =
     \<lparr>spacex_df = example_df,
      max_payload = Some 3000,
      min_payload = Some 500,
      launch_sites = [Some ''CCAFS'', Some ''KSC''],
      log = [CsvLoaded, DataCleaned 3, PayloadRange (Some 500) (Some 3000)]\<rparr>"

text \<open>A source file whose payload column has no missing value and holds 64-bit integers:
  a launch whose payload mass is \<open>2 ^ 53 + 1\<close> between launches of another booster
  category, and a launch with no booster category. Loading it drops no row.\<close>

definition heavy_df :: frame where
  "heavy_df =
     \<lparr>columns = [''Launch Site'', ''Payload Mass (kg)'', ''class'',
                  ''Booster Version Category''],
      payload_dtype = Int64,
      rows =
        [\<lparr>Launch_Site = Some ''KSC'', Payload_Mass = Some 3000, Class = Some 1,
           Booster_Version_Category = Some ''v2''\<rparr>,
         \<lparr>Launch_Site = Some ''CCAFS'', Payload_Mass = Some 9007199254740993, Class = Some 0,
           Booster_Version_Category = Some ''v1''\<rparr>,
         \<lparr>Launch_Site = Some ''KSC'', Payload_Mass = Some 3000, Class = Some 0,
           Booster_Version_Category = None\<rparr>,
         \<lparr>Launch_Site = Some ''KSC'', Payload_Mass = Some 4000, Class = Some 1,
           Booster_Version_Category = Some ''v2''\<rparr>]\<rparr>"

definition heavy_csv :: csv_source where
  "heavy_csv = Parsed heavy_df"

definition heavy_state :: app_state where
  "heavy_state =
     \<lparr>spacex_df = heavy_df,
      max_payload = Some 9007199254740993,
      min_payload = Some 3000,
      launch_sites = [Some ''KSC'', Some ''CCAFS''],
      log = [CsvLoaded, DataCleaned 4,
             PayloadRange (Some 3000) (Some 9007199254740993)]\<rparr>"

section \<open>Properties\<close>

subsection \<open>The library operations\<close>

text \<open>Facts about \<open>unique\<close>, the column extrema and the slice counts.\<close>

lemma uniques_append: "uniques seen (xs @ ys) = uniques (uniques seen xs) ys"
  by (induction xs arbitrary: seen) simp_all

lemma uniques_prefix: "\<exists>zs. uniques seen xs = seen @ zs"
proof (induction xs arbitrary: seen)
  case Nil
  show ?case by simp
next
  case (Cons x xs)
  show ?case
  proof (cases "x \<in> set seen")
    case True
    with Cons [of seen] show ?thesis by simp
  next
    case False
    from Cons [of "seen @ [x]"] obtain zs where "uniques (seen @ [x]) xs = (seen @ [x]) @ zs"
      by blast
    with False show ?thesis by simp
  qed
qed

lemma set_uniques: "set (uniques seen xs) = set seen \<union> set xs"
  by (induction xs arbitrary: seen) auto

lemma distinct_uniques: "distinct seen \<Longrightarrow> distinct (uniques seen xs)"
  by (induction xs arbitrary: seen) simp_all

lemma set_unique: "set (unique xs) = set xs"
  by (simp add: unique_def set_uniques)

lemma distinct_unique: "distinct (unique xs)"
  by (simp add: unique_def distinct_uniques)

lemma unique_first_seen:
  assumes "x \<notin> set pre"
  shows "\<exists>vs. unique (pre @ x # post) = unique pre @ x # vs"
proof -
  have "x \<notin> set (unique pre)"
    using assms by (simp add: set_unique)
  then have "unique (pre @ x # post) = uniques (unique pre @ [x]) post"
    by (simp add: unique_def uniques_append)
  moreover obtain zs where "uniques (unique pre @ [x]) post = (unique pre @ [x]) @ zs"
    using uniques_prefix by blast
  ultimately show ?thesis by simp
qed

lemma series_min_None: "series_min xs = None \<longleftrightarrow> (\<forall>x\<in>set xs. x = None)"
  by (induction xs rule: series_min.induct) (auto split: option.splits)

lemma series_max_None: "series_max xs = None \<longleftrightarrow> (\<forall>x\<in>set xs. x = None)"
  by (induction xs rule: series_max.induct) (auto split: option.splits)

lemma series_min_Some:
  "series_min xs = Some m \<Longrightarrow> Some m \<in> set xs \<and> (\<forall>p. Some p \<in> set xs \<longrightarrow> m \<le> p)"
proof (induction xs arbitrary: m rule: series_min.induct)
  case 1
  then show ?case by simp
next
  case (2 xs)
  then show ?case by simp
next
  case (3 v xs)
  show ?case
  proof (cases "series_min xs")
    case None
    then have "\<forall>x\<in>set xs. x = None" by (simp add: series_min_None)
    with 3 None show ?thesis by auto
  next
    case (Some m')
    with 3 have m: "m = min v m'" by simp
    from 3(1) [OF Some] have "Some m' \<in> set xs" "\<forall>p. Some p \<in> set xs \<longrightarrow> m' \<le> p"
      by simp_all
    with m show ?thesis by (auto simp: min_def)
  qed
qed

lemma series_max_Some:
  "series_max xs = Some m \<Longrightarrow> Some m \<in> set xs \<and> (\<forall>p. Some p \<in> set xs \<longrightarrow> p \<le> m)"
proof (induction xs arbitrary: m rule: series_max.induct)
  case 1
  then show ?case by simp
next
  case (2 xs)
  then show ?case by simp
next
  case (3 v xs)
  show ?case
  proof (cases "series_max xs")
    case None
    then have "\<forall>x\<in>set xs. x = None" by (simp add: series_max_None)
    with 3 None show ?thesis by auto
  next
    case (Some m')
    with 3 have m: "m = max v m'" by simp
    from 3(1) [OF Some] have "Some m' \<in> set xs" "\<forall>p. Some p \<in> set xs \<longrightarrow> p \<le> m'"
      by simp_all
    with m show ?thesis by (auto simp: max_def)
  qed
qed

lemma finite_values: "finite {p. Some p \<in> set xs}"
proof -
  have "{p. Some p \<in> set xs} = Some -` set xs" by auto
  then show ?thesis by (simp add: finite_vimageI)
qed

lemma series_min_Min: "series_min xs = Some m \<Longrightarrow> m = Min {p. Some p \<in> set xs}"
  using series_min_Some [of xs m] finite_values [of xs]
  by (intro Min_eqI [symmetric]) auto

lemma series_max_Max: "series_max xs = Some m \<Longrightarrow> m = Max {p. Some p \<in> set xs}"
  using series_max_Some [of xs m] finite_values [of xs]
  by (intro Max_eqI [symmetric]) auto

lemma sum_pie_counts: "sum_list (map snd (pie_counts ls)) = length ls"
proof -
  have "map snd (pie_counts ls) = map (count_list ls) (unique ls)"
    by (simp add: pie_counts_def comp_def)
  then have "sum_list (map snd (pie_counts ls)) = sum (count_list ls) (set (unique ls))"
    by (simp add: sum_list_distinct_conv_sum_set distinct_unique)
  also have "\<dots> = length ls"
    by (simp add: set_unique sum_count_set)
  finally show ?thesis .
qed

lemma keys_pie_counts: "fst ` set (pie_counts ls) = set ls"
  by (simp add: pie_counts_def image_image set_unique)

lemma pie_counts_positive: "(c, n) \<in> set (pie_counts ls) \<Longrightarrow> 0 < n \<and> n = count_list ls c"
  using count_list_0_iff [of ls c] by (auto simp: pie_counts_def set_unique)

text \<open>Facts about the traces of a scatter figure.\<close>

lemma unique_single: "unique xs = [u] \<Longrightarrow> set xs = {u}"
  using set_unique [of xs] by simp

lemma color_groups_Nil: "color_groups [] = []"
  by (simp add: color_groups_def unique_def)

lemma color_groups_single:
  "unique (map Booster_Version_Category rs) = [u] \<Longrightarrow>
     color_groups rs = [\<lparr>trace_name = u, trace_rows = rs\<rparr>]"
  by (simp add: color_groups_def)

lemma color_groups_many:
  "\<not> (\<exists>u. unique (map Booster_Version_Category rs) = [u]) \<Longrightarrow>
     color_groups rs =
       map (\<lambda>c. \<lparr>trace_name = c,
                  trace_rows = filter (\<lambda>r. Booster_Version_Category r = c) rs\<rparr>)
         (filter (\<lambda>c. c \<noteq> None) (unique (map Booster_Version_Category rs)))"
  by (auto simp: color_groups_def split: list.splits)

lemma color_groups_rows:
  assumes "t \<in> set (color_groups rs)"
  shows "trace_rows t = filter (\<lambda>r. Booster_Version_Category r = trace_name t) rs"
proof (cases "\<exists>u. unique (map Booster_Version_Category rs) = [u]")
  case True
  then obtain u where u: "unique (map Booster_Version_Category rs) = [u]" by blast
  from unique_single [OF u] have "\<forall>r\<in>set rs. Booster_Version_Category r = u"
    by auto
  then have "filter (\<lambda>r. Booster_Version_Category r = u) rs = rs"
    by (simp add: filter_id_conv)
  with assms show ?thesis
    by (simp add: color_groups_single [OF u])
next
  case False
  with assms show ?thesis
    by (auto simp: color_groups_many)
qed

lemma color_groups_distinct: "distinct (map trace_name (color_groups rs))"
proof (cases "\<exists>u. unique (map Booster_Version_Category rs) = [u]")
  case True
  then show ?thesis by (auto simp: color_groups_single)
next
  case False
  then show ?thesis
    by (simp add: color_groups_many comp_def distinct_unique)
qed

lemma color_groups_covers:
  assumes "r \<in> set rs" and "Booster_Version_Category r \<noteq> None"
  shows "\<exists>t\<in>set (color_groups rs). r \<in> set (trace_rows t)"
proof (cases "\<exists>u. unique (map Booster_Version_Category rs) = [u]")
  case True
  with assms show ?thesis by (auto simp: color_groups_single)
next
  case False
  have "Booster_Version_Category r \<in> set (unique (map Booster_Version_Category rs))"
    using assms(1) by (simp add: set_unique)
  with assms show ?thesis
    by (auto simp: color_groups_many [OF False] image_iff)
qed

text \<open>Facts about the comparisons: up to \<open>2 ^ 53\<close> in magnitude they are exact.\<close>

lemma to_float64_exact: "\<bar>n\<bar> \<le> 2 ^ 53 \<Longrightarrow> to_float64 n = of_int n"
  by (simp add: to_float64_def)

lemma cell_side_exact:
  assumes "\<bar>p\<bar> \<le> 2 ^ 53"
  shows "cell_side dt b p = p"
proof (cases "p = of_int \<lfloor>p\<rfloor>")
  case True
  with assms have "\<bar>(of_int \<lfloor>p\<rfloor> :: rat)\<bar> \<le> of_int (2 ^ 53)"
    by simp
  then have "\<bar>\<lfloor>p\<rfloor>\<bar> \<le> 2 ^ 53"
    by (simp only: of_int_abs [symmetric] of_int_le_iff)
  then have "to_float64 \<lfloor>p\<rfloor> = of_int \<lfloor>p\<rfloor>"
    by (rule to_float64_exact)
  with True show ?thesis
    by (simp add: cell_side_def split: dtype.splits number.splits)
next
  case False
  then show ?thesis
    by (simp add: cell_side_def split: dtype.splits number.splits)
qed

lemma bound_side_exact:
  assumes "\<bar>value_of b\<bar> \<le> 2 ^ 53"
  shows "bound_side dt b = value_of b"
proof (cases b)
  case (PyInt n)
  with assms have "\<bar>(of_int n :: rat)\<bar> \<le> of_int (2 ^ 53)"
    by simp
  then have "\<bar>n\<bar> \<le> 2 ^ 53"
    by (simp only: of_int_abs [symmetric] of_int_le_iff)
  then have "to_float64 n = of_int n"
    by (rule to_float64_exact)
  with PyInt show ?thesis
    by (simp add: bound_side_def split: dtype.splits)
next
  case (PyFloat f)
  then show ?thesis
    by (simp add: bound_side_def split: dtype.splits)
qed

lemma in_range_exact:
  assumes "\<forall>p. Payload_Mass r = Some p \<longrightarrow> \<bar>p\<bar> \<le> 2 ^ 53"
    and "\<bar>value_of low\<bar> \<le> 2 ^ 53" and "\<bar>value_of high\<bar> \<le> 2 ^ 53"
  shows "in_range dt low high r \<longleftrightarrow>
           (\<exists>p. Payload_Mass r = Some p \<and> value_of low \<le> p \<and> p \<le> value_of high)"
proof (cases "Payload_Mass r")
  case None
  then show ?thesis by (simp add: in_range_def)
next
  case (Some p)
  with assms(1) have p: "\<bar>p\<bar> \<le> 2 ^ 53" by blast
  show ?thesis
    by (simp only: in_range_def Some option.case cell_side_exact [OF p]
        bound_side_exact [OF assms(2)] bound_side_exact [OF assms(3)]) simp
qed

text \<open>Beyond \<open>2 ^ 53\<close> they are not: \<open>2 ^ 53 + 1\<close> is rounded to \<open>2 ^ 53\<close>.\<close>

lemma bit_length_heavy: "bit_length 9007199254740993 = 54"
  by (simp add: bit_length.simps)

lemma to_float64_heavy: "to_float64 9007199254740993 = 9007199254740992"
  by (simp add: to_float64_def Let_def bit_length_heavy)


subsection \<open>Basic facts\<close>

lemmas col_defs = col_payload_def col_site_def col_class_def col_booster_def

lemma load_example: "load example_csv = Inr example_state"
  by (simp add: load_def read_csv_def example_csv_def dropna_def col_defs example_rows_def
      complete_def unique_def example_state_def example_df_def Let_def numeral_3_eq_3)

lemma load_heavy: "load heavy_csv = Inr heavy_state"
  by (simp add: load_def read_csv_def heavy_csv_def dropna_def col_defs
      complete_def unique_def heavy_state_def heavy_df_def Let_def)

lemma example_columns:
  "set [col_payload, col_site, col_class, col_booster]
     \<subseteq> set (columns (spacex_df example_state))"
  by (simp add: example_state_def example_df_def col_defs)

lemma heavy_columns:
  "set [col_payload, col_site, col_class, col_booster]
     \<subseteq> set (columns (spacex_df heavy_state))"
  by (simp add: heavy_state_def heavy_df_def col_defs)

lemma px_scatter_ok:
  "set [col_payload, col_class, col_booster] \<subseteq> set (columns df) \<Longrightarrow>
     px_scatter df t = Inr \<lparr>scatter_title = t, scatter_traces = color_groups (rows df)\<rparr>"
  by (simp add: px_scatter_def)

text \<open>On a frame that has the four columns, the scatter callback returns a figure, and
  the figure has the traces of the rows that pass both filters.\<close>

lemma get_scatter_chart_ok:
  assumes "set [col_payload, col_site, col_class, col_booster]
             \<subseteq> set (columns (spacex_df st))"
  shows "fst (get_scatter_chart st site [low, high]) =
           Inr \<lparr>scatter_title =
                   (if site = ''ALL''
                    then ''Correlation Between Payload and Success for All Sites''
                    else ''Correlation Between Payload and Success for '' @ site),
                 scatter_traces =
                   color_groups
                     (filter (\<lambda>r. in_range (payload_dtype (spacex_df st)) low high r \<and>
                                  (site = ''ALL'' \<or> at_site site r))
                        (rows (spacex_df st)))\<rparr>"
  using assms by (simp add: get_scatter_chart_def Let_def px_scatter_ok)

text \<open>The destructuring \<^verbatim>\<open>low, high = payload_range\<close> fails exactly on the ranges
  that do not have two elements, whatever the frame is.\<close>

lemma get_scatter_chart_unpack:
  "fst (get_scatter_chart st site pr) = Inl (ValueError ''unpack'') \<longleftrightarrow> length pr \<noteq> 2"
proof (cases "\<exists>low high. pr = [low, high]")
  case True
  then obtain low high where pr: "pr = [low, high]" by blast
  show ?thesis
    by (simp add: pr get_scatter_chart_def Let_def px_scatter_def col_defs split: list.splits)
next
  case False
  then have len: "length pr \<noteq> 2"
    by (cases pr; simp; cases "tl pr"; simp)
  from False have "fst (get_scatter_chart st site pr) = Inl (ValueError ''unpack'')"
    by (auto simp: get_scatter_chart_def Let_def split: list.splits)
  with len show ?thesis by simp
qed

subsection \<open>The loader\<close>

text \<open>A load succeeds exactly on a parsed table that has the three cleaned columns,
  and then the state is determined by the table.\<close>

lemma load_Inr:
  "load src = Inr st \<longleftrightarrow>
     (\<exists>df0. src = Parsed df0 \<and>
        set [col_payload, col_site, col_class] \<subseteq> set (columns df0) \<and>
        st = \<lparr>spacex_df = df0\<lparr>rows := filter complete (rows df0)\<rparr>,
              max_payload = series_max (map Payload_Mass (filter complete (rows df0))),
              min_payload = series_min (map Payload_Mass (filter complete (rows df0))),
              launch_sites = unique (map Launch_Site (filter complete (rows df0))),
              log = [CsvLoaded, DataCleaned (length (filter complete (rows df0))),
                     PayloadRange (series_min (map Payload_Mass (filter complete (rows df0))))
                       (series_max (map Payload_Mass (filter complete (rows df0))))]\<rparr>)"
  by (cases src) (auto simp: load_def read_csv_def dropna_def Let_def)


lemma load_columns:
  "load src = Inr st \<Longrightarrow>
     set [col_payload, col_site, col_class] \<subseteq> set (columns (spacex_df st))"
  by (auto simp: load_Inr)

lemma load_fields:
  assumes "load src = Inr st"
  shows "\<exists>df0. src = Parsed df0 \<and> rows (spacex_df st) = filter complete (rows df0)"
    and "max_payload st = series_max (map Payload_Mass (rows (spacex_df st)))"
    and "min_payload st = series_min (map Payload_Mass (rows (spacex_df st)))"
    and "launch_sites st = unique (map Launch_Site (rows (spacex_df st)))"
  using assms by (auto simp: load_Inr)

lemma load_complete:
  assumes "load src = Inr st" and "r \<in> set (rows (spacex_df st))"
  shows "complete r"
  using assms by (auto simp: load_Inr)

lemma get_pie_chart_ok:
  assumes "set [col_site, col_class] \<subseteq> set (columns (spacex_df st))"
  shows "fst (get_pie_chart st site) =
           Inr \<lparr>pie_title =
                   (if site = ''ALL'' then ''Total Launch Outcomes for All Sites''
                    else ''Total Launch Outcomes for '' @ site),
                 pie_names =
                   map Class (filter (\<lambda>r. site = ''ALL'' \<or> at_site site r)
                                (rows (spacex_df st)))\<rparr>"
  using assms by (simp add: get_pie_chart_def Let_def px_pie_def)

text \<open>
  Claim C5. After a successful load, the frame holds exactly the source rows with no
  missing value in Payload Mass (kg), Launch Site and class, in their order, so no row
  of it has a missing value there; when at least one row survives, \<open>min_payload\<close> and
  \<open>max_payload\<close> are the least and the greatest surviving payload mass (both are NaN
  when none survives); and \<open>launch_sites\<close> lists the surviving launch sites once each,
  in first-seen order: the sites listed before a site \<open>x\<close> are those met in the column
  before the first occurrence of \<open>x\<close>.
\<close>

theorem load_cleans_and_summarises:
  assumes "load src = Inr st"
  shows "\<exists>df0. src = Parsed df0 \<and>
           rows (spacex_df st) =
             filter (\<lambda>r. Payload_Mass r \<noteq> None \<and> Launch_Site r \<noteq> None \<and> Class r \<noteq> None)
               (rows df0) \<and>
           (\<forall>r\<in>set (rows (spacex_df st)).
              Payload_Mass r \<noteq> None \<and> Launch_Site r \<noteq> None \<and> Class r \<noteq> None) \<and>
           (rows (spacex_df st) = [] \<longrightarrow> min_payload st = None \<and> max_payload st = None) \<and>
           (rows (spacex_df st) \<noteq> [] \<longrightarrow>
              min_payload st =
                Some (Min {p. Some p \<in> Payload_Mass ` set (rows (spacex_df st))}) \<and>
              max_payload st =
                Some (Max {p. Some p \<in> Payload_Mass ` set (rows (spacex_df st))})) \<and>
           distinct (launch_sites st) \<and>
           set (launch_sites st) = Launch_Site ` set (rows (spacex_df st)) \<and>
           (\<forall>pre x post.
              map Launch_Site (rows (spacex_df st)) = pre @ x # post \<and> x \<notin> set pre \<longrightarrow>
              (\<exists>us vs. launch_sites st = us @ x # vs \<and> set us = set pre))"
proof -
  let ?rs = "rows (spacex_df st)"
  let ?ps = "map Payload_Mass ?rs"
  from load_fields(1) [OF assms] obtain df0
    where src: "src = Parsed df0" and rs: "?rs = filter complete (rows df0)"
    by blast
  have compl: "\<forall>r\<in>set ?rs. complete r"
    using load_complete [OF assms] by blast
  have mx: "max_payload st = series_max ?ps" and mn: "min_payload st = series_min ?ps"
    and ls: "launch_sites st = unique (map Launch_Site ?rs)"
    using load_fields [OF assms] by simp_all
  have empty: "?rs = [] \<longrightarrow> min_payload st = None \<and> max_payload st = None"
    by (simp add: mx mn)
  have bounds: "min_payload st = Some (Min {p. Some p \<in> Payload_Mass ` set ?rs}) \<and>
                max_payload st = Some (Max {p. Some p \<in> Payload_Mass ` set ?rs})"
    if ne: "?rs \<noteq> []"
  proof -
    from ne obtain r where r: "r \<in> set ?rs" by (cases ?rs) auto
    with compl have "Payload_Mass r \<noteq> None" by (simp add: complete_def)
    with r have some: "\<not> (\<forall>x\<in>set ?ps. x = None)" by auto
    from some obtain a where a: "series_min ?ps = Some a"
      using series_min_None [of ?ps] by (cases "series_min ?ps") auto
    from some obtain b where b: "series_max ?ps = Some b"
      using series_max_None [of ?ps] by (cases "series_max ?ps") auto
    from series_min_Min [OF a] series_max_Max [OF b] show ?thesis
      by (simp add: mn mx a b)
  qed
  have first: "\<exists>us vs. launch_sites st = us @ x # vs \<and> set us = set pre"
    if "map Launch_Site ?rs = pre @ x # post \<and> x \<notin> set pre" for pre x post
  proof -
    from that unique_first_seen [of x pre post]
    obtain vs where "launch_sites st = unique pre @ x # vs"
      by (auto simp: ls)
    then show ?thesis using set_unique [of pre] by blast
  qed
  have "?rs = filter (\<lambda>r. Payload_Mass r \<noteq> None \<and> Launch_Site r \<noteq> None \<and> Class r \<noteq> None)
                (rows df0)"
    using rs by (simp add: complete_def [abs_def])
  moreover have "\<forall>r\<in>set ?rs. Payload_Mass r \<noteq> None \<and> Launch_Site r \<noteq> None \<and> Class r \<noteq> None"
    using compl by (simp add: complete_def)
  moreover have "distinct (launch_sites st)"
    by (simp add: ls distinct_unique)
  moreover have "set (launch_sites st) = Launch_Site ` set ?rs"
    by (simp add: ls set_unique)
  ultimately show ?thesis
    using src empty bounds first by blast
qed

theorem load_cleans_and_summarises_witness:
  "load example_csv = Inr example_state \<and>
   rows (spacex_df example_state) = [example_rows ! 0, example_rows ! 2, example_rows ! 3] \<and>
   min_payload example_state = Some 500 \<and>
   Min {p. Some p \<in> Payload_Mass ` set (rows (spacex_df example_state))} = 500 \<and>
   max_payload example_state = Some 3000 \<and>
   Max {p. Some p \<in> Payload_Mass ` set (rows (spacex_df example_state))} = 3000 \<and>
   launch_sites example_state = [Some ''CCAFS'', Some ''KSC''] \<and>
   distinct (launch_sites example_state)"
  using load_cleans_and_summarises [OF load_example] load_example
  by (auto simp: example_state_def example_df_def example_rows_def)

subsection \<open>The scatter chart\<close>

text \<open>With payload masses and bounds up to \<open>2 ^ 53\<close> in magnitude, the rows that the
  callback hands to the plotting call are those with \<open>low \<le> payload \<le> high\<close> at the
  selected site.\<close>

lemma get_scatter_chart_exact:
  assumes cols: "set [col_payload, col_site, col_class, col_booster]
                   \<subseteq> set (columns (spacex_df st))"
    and mags: "\<forall>r\<in>set (rows (spacex_df st)). \<forall>p. Payload_Mass r = Some p \<longrightarrow> \<bar>p\<bar> \<le> 2 ^ 53"
    and lo: "\<bar>value_of low\<bar> \<le> 2 ^ 53" and hi: "\<bar>value_of high\<bar> \<le> 2 ^ 53"
  shows "\<exists>fig. fst (get_scatter_chart st site [low, high]) = Inr fig \<and>
           scatter_traces fig =
             color_groups
               (filter (\<lambda>r. (\<exists>p. Payload_Mass r = Some p \<and> value_of low \<le> p \<and>
                                  p \<le> value_of high) \<and>
                            (site = ''ALL'' \<or> Launch_Site r = Some site))
                  (rows (spacex_df st)))"
proof -
  have "filter (\<lambda>r. in_range (payload_dtype (spacex_df st)) low high r \<and>
                     (site = ''ALL'' \<or> at_site site r)) (rows (spacex_df st)) =
        filter (\<lambda>r. (\<exists>p. Payload_Mass r = Some p \<and> value_of low \<le> p \<and> p \<le> value_of high) \<and>
                     (site = ''ALL'' \<or> Launch_Site r = Some site)) (rows (spacex_df st))"
  proof (rule filter_cong [OF refl])
    fix r
    assume "r \<in> set (rows (spacex_df st))"
    with mags have "\<forall>p. Payload_Mass r = Some p \<longrightarrow> \<bar>p\<bar> \<le> 2 ^ 53"
      by blast
    from in_range_exact [OF this lo hi]
    show "(in_range (payload_dtype (spacex_df st)) low high r \<and>
             (site = ''ALL'' \<or> at_site site r)) =
          ((\<exists>p. Payload_Mass r = Some p \<and> value_of low \<le> p \<and> p \<le> value_of high) \<and>
             (site = ''ALL'' \<or> Launch_Site r = Some site))"
      by (simp add: at_site_def)
  qed
  with get_scatter_chart_ok [OF cols, of site low high] show ?thesis
    by simp
qed

text \<open>The rows of the second example that pass the payload filter, for the ranges used
  below.\<close>

lemma to_float64_small: "to_float64 3000 = 3000" "to_float64 4000 = 4000"
  by (simp_all add: to_float64_def)

lemmas heavy_eval =
  heavy_state_def heavy_df_def in_range_def cell_side_def bound_side_def to_float64_heavy
  to_float64_small at_site_def color_groups_def unique_def

lemma heavy_wide:
  "fst (get_scatter_chart heavy_state ''ALL'' [PyInt 0, PyInt 10000000000000000]) =
     Inr \<lparr>scatter_title = ''Correlation Between Payload and Success for All Sites'',
          scatter_traces =
            [\<lparr>trace_name = Some ''v2'', trace_rows = [rows heavy_df ! 0, rows heavy_df ! 3]\<rparr>,
             \<lparr>trace_name = Some ''v1'', trace_rows = [rows heavy_df ! 1]\<rparr>]\<rparr>"
  using get_scatter_chart_ok [OF heavy_columns, of "''ALL''" "PyInt 0" "PyInt 10000000000000000"]
  by (simp add: heavy_eval)

lemma heavy_slider:
  "fst (get_scatter_chart heavy_state ''ALL'' [PyInt 0, PyInt 10000]) =
     Inr \<lparr>scatter_title = ''Correlation Between Payload and Success for All Sites'',
          scatter_traces =
            [\<lparr>trace_name = Some ''v2'',
              trace_rows = [rows heavy_df ! 0, rows heavy_df ! 3]\<rparr>]\<rparr>"
  using get_scatter_chart_ok [OF heavy_columns, of "''ALL''" "PyInt 0" "PyInt 10000"]
  by (simp add: heavy_eval)

lemma heavy_float_bounds:
  "fst (get_scatter_chart heavy_state ''ALL''
          [PyFloat 9007199254740992, PyFloat 9007199254740992]) =
     Inr \<lparr>scatter_title = ''Correlation Between Payload and Success for All Sites'',
          scatter_traces = [\<lparr>trace_name = Some ''v1'', trace_rows = [rows heavy_df ! 1]\<rparr>]\<rparr>"
  using get_scatter_chart_ok [OF heavy_columns, of "''ALL''" "PyFloat 9007199254740992"
      "PyFloat 9007199254740992"]
  by (simp add: heavy_eval)

lemma heavy_equal_bounds:
  "fst (get_scatter_chart heavy_state ''ALL'' [PyInt 3000, PyInt 3000]) =
     Inr \<lparr>scatter_title = ''Correlation Between Payload and Success for All Sites'',
          scatter_traces = [\<lparr>trace_name = Some ''v2'', trace_rows = [rows heavy_df ! 0]\<rparr>]\<rparr>"
  using get_scatter_chart_ok [OF heavy_columns, of "''ALL''" "PyInt 3000" "PyInt 3000"]
  by (simp add: heavy_eval)

lemma heavy_crossed_bounds:
  "fst (get_scatter_chart heavy_state ''ALL''
          [PyInt 9007199254740993, PyFloat 9007199254740992]) =
     Inr \<lparr>scatter_title = ''Correlation Between Payload and Success for All Sites'',
          scatter_traces = [\<lparr>trace_name = Some ''v1'', trace_rows = [rows heavy_df ! 1]\<rparr>]\<rparr>"
  using get_scatter_chart_ok [OF heavy_columns, of "''ALL''" "PyInt 9007199254740993"
      "PyFloat 9007199254740992"]
  by (simp add: heavy_eval)

lemma example_magnitudes:
  "\<forall>r\<in>set (rows (spacex_df example_state)). \<forall>p. Payload_Mass r = Some p \<longrightarrow> \<bar>p\<bar> \<le> 2 ^ 53"
  by (simp add: example_state_def example_df_def)

lemma example_ccafs:
  "fst (get_scatter_chart example_state ''CCAFS'' [PyInt 0, PyInt 2600]) =
     Inr \<lparr>scatter_title = ''Correlation Between Payload and Success for CCAFS'',
          scatter_traces =
            [\<lparr>trace_name = Some ''v1'',
              trace_rows = take 2 (rows (spacex_df example_state))\<rparr>]\<rparr>"
  using get_scatter_chart_ok [OF example_columns, of "''CCAFS''" "PyInt 0" "PyInt 2600"]
  by (simp add: example_state_def example_df_def in_range_def cell_side_def bound_side_def
      at_site_def color_groups_def unique_def to_float64_def)

text \<open>
  Claim C1, as the code has it. On a frame with the four columns whose payload masses,
  like the two bounds, are at most \<open>2 ^ 53\<close> in magnitude, for every site selector and
  every payload range \<open>[low, high]\<close>, \<open>get_scatter_chart\<close> returns a figure with at
  most one trace for a booster category; each trace holds exactly the rows of its
  category with \<open>low \<le> payload \<le> high\<close> and (\<open>site = ALL\<close> or launch site equal to
  \<open>site\<close>), so no other row appears, in their relative order in the input; and every
  such row that has a booster category is in a trace.
\<close>

theorem scatter_traces_filter:
  assumes "set [col_payload, col_site, col_class, col_booster]
             \<subseteq> set (columns (spacex_df st))"
    and "\<forall>r\<in>set (rows (spacex_df st)). \<forall>p. Payload_Mass r = Some p \<longrightarrow> \<bar>p\<bar> \<le> 2 ^ 53"
    and "\<bar>value_of low\<bar> \<le> 2 ^ 53" and "\<bar>value_of high\<bar> \<le> 2 ^ 53"
  shows "\<exists>fig. fst (get_scatter_chart st site [low, high]) = Inr fig \<and>
           distinct (map trace_name (scatter_traces fig)) \<and>
           (\<forall>t\<in>set (scatter_traces fig).
              trace_rows t =
                filter (\<lambda>r. (\<exists>p. Payload_Mass r = Some p \<and> value_of low \<le> p \<and>
                                   p \<le> value_of high) \<and>
                             (site = ''ALL'' \<or> Launch_Site r = Some site) \<and>
                             Booster_Version_Category r = trace_name t)
                  (rows (spacex_df st)) \<and>
              subseq (trace_rows t) (rows (spacex_df st))) \<and>
           (\<forall>r\<in>set (rows (spacex_df st)).
              (\<exists>p. Payload_Mass r = Some p \<and> value_of low \<le> p \<and> p \<le> value_of high) \<and>
              (site = ''ALL'' \<or> Launch_Site r = Some site) \<and>
              Booster_Version_Category r \<noteq> None \<longrightarrow>
              (\<exists>t\<in>set (scatter_traces fig). r \<in> set (trace_rows t)))"
proof -
  let ?P = "\<lambda>r. (\<exists>p. Payload_Mass r = Some p \<and> value_of low \<le> p \<and> p \<le> value_of high) \<and>
                 (site = ''ALL'' \<or> Launch_Site r = Some site)"
  let ?sel = "filter ?P (rows (spacex_df st))"
  from get_scatter_chart_exact [OF assms, of site]
  obtain fig where fig: "fst (get_scatter_chart st site [low, high]) = Inr fig"
    and traces: "scatter_traces fig = color_groups ?sel"
    by blast
  have dist: "distinct (map trace_name (scatter_traces fig))"
    by (simp only: traces color_groups_distinct)
  have each: "trace_rows t =
                filter (\<lambda>r. (\<exists>p. Payload_Mass r = Some p \<and> value_of low \<le> p \<and>
                                   p \<le> value_of high) \<and>
                             (site = ''ALL'' \<or> Launch_Site r = Some site) \<and>
                             Booster_Version_Category r = trace_name t)
                  (rows (spacex_df st)) \<and>
              subseq (trace_rows t) (rows (spacex_df st))"
    if "t \<in> set (scatter_traces fig)" for t
  proof -
    from that have "trace_rows t = filter (\<lambda>r. Booster_Version_Category r = trace_name t) ?sel"
      by (simp only: traces color_groups_rows)
    then have "trace_rows t =
                filter (\<lambda>r. (\<exists>p. Payload_Mass r = Some p \<and> value_of low \<le> p \<and>
                                   p \<le> value_of high) \<and>
                             (site = ''ALL'' \<or> Launch_Site r = Some site) \<and>
                             Booster_Version_Category r = trace_name t)
                  (rows (spacex_df st))"
      by (simp add: conj_ac)
    then show ?thesis by simp
  qed
  have cover: "\<exists>t\<in>set (scatter_traces fig). r \<in> set (trace_rows t)"
    if "r \<in> set (rows (spacex_df st))" and "?P r" and "Booster_Version_Category r \<noteq> None"
    for r
  proof -
    from that have "r \<in> set ?sel" by simp
    from color_groups_covers [OF this that(3)] show ?thesis
      by (simp only: traces)
  qed
  from fig dist each cover show ?thesis
    by (intro exI [of _ fig] conjI ballI impI) blast+
qed

theorem scatter_traces_filter_witness:
  "set [col_payload, col_site, col_class, col_booster]
     \<subseteq> set (columns (spacex_df example_state)) \<and>
   \<bar>value_of (PyInt 0)\<bar> \<le> 2 ^ 53 \<and> \<bar>value_of (PyInt 2600)\<bar> \<le> 2 ^ 53 \<and>
   (\<exists>fig. fst (get_scatter_chart example_state ''CCAFS'' [PyInt 0, PyInt 2600]) = Inr fig \<and>
      distinct (map trace_name (scatter_traces fig)) \<and>
      scatter_traces fig =
        [\<lparr>trace_name = Some ''v1'',
          trace_rows = take 2 (rows (spacex_df example_state))\<rparr>])"
proof -
  have lo: "\<bar>value_of (PyInt 0)\<bar> \<le> 2 ^ 53" and hi: "\<bar>value_of (PyInt 2600)\<bar> \<le> 2 ^ 53"
    by simp_all
  from scatter_traces_filter [OF example_columns example_magnitudes lo hi, of "''CCAFS''"]
  show ?thesis
    using example_columns lo hi example_ccafs by auto
qed

text \<open>
  Claim C1, as stated, fails on the second example with the selector \<open>ALL\<close>. With the
  range \<open>[0, 10000]\<close> the third launch (payload mass 3000, no booster category)
  satisfies the predicate and is not in the figure. With the range \<open>[0, 10 ^ 16]\<close> the
  figure has the fourth launch before the second, against their order in the input.
  With both bounds the float \<open>2 ^ 53\<close> the figure has the second launch, whose payload
  mass \<open>2 ^ 53 + 1\<close> is above the upper bound.
\<close>

theorem scatter_not_exact_filter:
  "fst (get_scatter_chart heavy_state ''ALL'' [PyInt 0, PyInt 10000]) =
     Inr \<lparr>scatter_title = ''Correlation Between Payload and Success for All Sites'',
          scatter_traces =
            [\<lparr>trace_name = Some ''v2'',
              trace_rows = [rows heavy_df ! 0, rows heavy_df ! 3]\<rparr>]\<rparr> \<and>
   Payload_Mass (rows (spacex_df heavy_state) ! 2) = Some 3000 \<and>
   rows heavy_df ! 2 \<notin> {rows heavy_df ! 0, rows heavy_df ! 3} \<and>
   fst (get_scatter_chart heavy_state ''ALL'' [PyInt 0, PyInt 10000000000000000]) =
     Inr \<lparr>scatter_title = ''Correlation Between Payload and Success for All Sites'',
          scatter_traces =
            [\<lparr>trace_name = Some ''v2'', trace_rows = [rows heavy_df ! 0, rows heavy_df ! 3]\<rparr>,
             \<lparr>trace_name = Some ''v1'', trace_rows = [rows heavy_df ! 1]\<rparr>]\<rparr> \<and>
   fst (get_scatter_chart heavy_state ''ALL''
          [PyFloat 9007199254740992, PyFloat 9007199254740992]) =
     Inr \<lparr>scatter_title = ''Correlation Between Payload and Success for All Sites'',
          scatter_traces = [\<lparr>trace_name = Some ''v1'', trace_rows = [rows heavy_df ! 1]\<rparr>]\<rparr> \<and>
   Payload_Mass (rows (spacex_df heavy_state) ! 1) = Some 9007199254740993 \<and>
   value_of (PyFloat 9007199254740992) < 9007199254740993"
  by (simp add: heavy_slider heavy_wide heavy_float_bounds) (simp add: heavy_state_def heavy_df_def)

text \<open>
  Claim C3, as the code has it. On a frame with the four columns whose payload masses,
  like the two bounds, are at most \<open>2 ^ 53\<close> in magnitude, and for every site selector:
  with \<open>low > high\<close>, \<open>get_scatter_chart\<close> returns a figure (no error) with no row; with \<open>low = high\<close> it returns a figure each of whose traces holds exactly the
  rows of its booster category, at the selected site, whose payload mass is that bound,
  and every such row that has a booster category is in a trace.
\<close>

theorem scatter_range_edges_exact:
  assumes "set [col_payload, col_site, col_class, col_booster]
             \<subseteq> set (columns (spacex_df st))"
    and "\<forall>r\<in>set (rows (spacex_df st)). \<forall>p. Payload_Mass r = Some p \<longrightarrow> \<bar>p\<bar> \<le> 2 ^ 53"
    and "\<bar>value_of low\<bar> \<le> 2 ^ 53" and "\<bar>value_of high\<bar> \<le> 2 ^ 53"
  shows "(value_of high < value_of low \<longrightarrow>
            (\<exists>fig. fst (get_scatter_chart st site [low, high]) = Inr fig \<and>
               scatter_frame fig = [])) \<and>
         (value_of low = value_of high \<longrightarrow>
            (\<exists>fig. fst (get_scatter_chart st site [low, high]) = Inr fig \<and>
               (\<forall>t\<in>set (scatter_traces fig).
                  trace_rows t =
                    filter (\<lambda>r. Payload_Mass r = Some (value_of low) \<and>
                                 (site = ''ALL'' \<or> Launch_Site r = Some site) \<and>
                                 Booster_Version_Category r = trace_name t)
                      (rows (spacex_df st))) \<and>
               (\<forall>r\<in>set (rows (spacex_df st)).
                  Payload_Mass r = Some (value_of low) \<and>
                  (site = ''ALL'' \<or> Launch_Site r = Some site) \<and>
                  Booster_Version_Category r \<noteq> None \<longrightarrow>
                  (\<exists>t\<in>set (scatter_traces fig). r \<in> set (trace_rows t)))))"
proof (intro conjI impI)
  assume "value_of high < value_of low"
  then have "filter (\<lambda>r. (\<exists>p. Payload_Mass r = Some p \<and> value_of low \<le> p \<and>
                              p \<le> value_of high) \<and>
                        (site = ''ALL'' \<or> Launch_Site r = Some site))
               (rows (spacex_df st)) = []"
    by (auto simp: filter_empty_conv)
  with get_scatter_chart_exact [OF assms, of site]
  show "\<exists>fig. fst (get_scatter_chart st site [low, high]) = Inr fig \<and>
               scatter_frame fig = []"
    by (auto simp: color_groups_Nil scatter_frame_def)
next
  assume eq: "value_of low = value_of high"
  let ?sel = "filter (\<lambda>r. Payload_Mass r = Some (value_of low) \<and>
                          (site = ''ALL'' \<or> Launch_Site r = Some site))
                (rows (spacex_df st))"
  have "filter (\<lambda>r. (\<exists>p. Payload_Mass r = Some p \<and> value_of low \<le> p \<and>
                         p \<le> value_of high) \<and>
                   (site = ''ALL'' \<or> Launch_Site r = Some site))
          (rows (spacex_df st)) = ?sel"
    by (rule filter_cong [OF refl]) (auto simp: eq)
  with get_scatter_chart_exact [OF assms, of site]
  obtain fig where fig: "fst (get_scatter_chart st site [low, high]) = Inr fig"
    and traces: "scatter_traces fig = color_groups ?sel"
    by auto
  have each: "trace_rows t =
                filter (\<lambda>r. Payload_Mass r = Some (value_of low) \<and>
                             (site = ''ALL'' \<or> Launch_Site r = Some site) \<and>
                             Booster_Version_Category r = trace_name t)
                  (rows (spacex_df st))"
    if "t \<in> set (scatter_traces fig)" for t
  proof -
    from that have "trace_rows t = filter (\<lambda>r. Booster_Version_Category r = trace_name t) ?sel"
      by (simp only: traces color_groups_rows)
    then show ?thesis
      by (simp add: conj_ac)
  qed
  have cover: "\<exists>t\<in>set (scatter_traces fig). r \<in> set (trace_rows t)"
    if "r \<in> set (rows (spacex_df st))"
      and "Payload_Mass r = Some (value_of low) \<and>
           (site = ''ALL'' \<or> Launch_Site r = Some site)"
      and "Booster_Version_Category r \<noteq> None"
    for r
  proof -
    from that have "r \<in> set ?sel" by simp
    from color_groups_covers [OF this that(3)] show ?thesis
      by (simp only: traces)
  qed
  from fig each cover
  show "\<exists>fig. fst (get_scatter_chart st site [low, high]) = Inr fig \<and>
               (\<forall>t\<in>set (scatter_traces fig).
                  trace_rows t =
                    filter (\<lambda>r. Payload_Mass r = Some (value_of low) \<and>
                                 (site = ''ALL'' \<or> Launch_Site r = Some site) \<and>
                                 Booster_Version_Category r = trace_name t)
                      (rows (spacex_df st))) \<and>
               (\<forall>r\<in>set (rows (spacex_df st)).
                  Payload_Mass r = Some (value_of low) \<and>
                  (site = ''ALL'' \<or> Launch_Site r = Some site) \<and>
                  Booster_Version_Category r \<noteq> None \<longrightarrow>
                  (\<exists>t\<in>set (scatter_traces fig). r \<in> set (trace_rows t)))"
    by (intro exI [of _ fig] conjI ballI impI) blast+
qed

lemma example_equal_bounds:
  "fst (get_scatter_chart example_state ''ALL'' [PyInt 2500, PyFloat 2500]) =
     Inr \<lparr>scatter_title = ''Correlation Between Payload and Success for All Sites'',
          scatter_traces =
            [\<lparr>trace_name = Some ''v1'',
              trace_rows = [rows (spacex_df example_state) ! 1]\<rparr>]\<rparr>"
  using get_scatter_chart_ok [OF example_columns, of "''ALL''" "PyInt 2500" "PyFloat 2500"]
  by (simp add: example_state_def example_df_def in_range_def cell_side_def bound_side_def
      at_site_def color_groups_def unique_def to_float64_def)

theorem scatter_range_edges_exact_witness:
  "set [col_payload, col_site, col_class, col_booster]
     \<subseteq> set (columns (spacex_df example_state)) \<and>
   value_of (PyInt 100) < value_of (PyInt 3000) \<and>
   (\<exists>fig. fst (get_scatter_chart example_state ''ALL'' [PyInt 3000, PyInt 100]) = Inr fig \<and>
      scatter_frame fig = []) \<and>
   value_of (PyInt 2500) = value_of (PyFloat 2500) \<and>
   (\<exists>fig. fst (get_scatter_chart example_state ''ALL'' [PyInt 2500, PyFloat 2500]) = Inr fig \<and>
      scatter_traces fig =
        [\<lparr>trace_name = Some ''v1'', trace_rows = [rows (spacex_df example_state) ! 1]\<rparr>])"
proof -
  have a: "\<bar>value_of (PyInt 3000)\<bar> \<le> 2 ^ 53" and b: "\<bar>value_of (PyInt 100)\<bar> \<le> 2 ^ 53"
    and c: "\<bar>value_of (PyInt 2500)\<bar> \<le> 2 ^ 53" and d: "\<bar>value_of (PyFloat 2500)\<bar> \<le> 2 ^ 53"
    by simp_all
  from scatter_range_edges_exact [OF example_columns example_magnitudes a b, of "''ALL''"]
    scatter_range_edges_exact [OF example_columns example_magnitudes c d, of "''ALL''"]
  show ?thesis
    using example_columns example_equal_bounds by auto
qed

text \<open>
  Claim C3, as stated, fails on the second example with the selector \<open>ALL\<close>. With both
  bounds the float \<open>2 ^ 53\<close> the figure has the launch whose payload mass is
  \<open>2 ^ 53 + 1\<close>, not the bound. With both bounds 3000 the figure has the first launch
  and not the third, whose payload mass is 3000 too and which has no booster category.
  With the integer \<open>2 ^ 53 + 1\<close> as the lower bound and the float \<open>2 ^ 53\<close> as the upper
  one, so \<open>low > high\<close>, the figure is not empty.
\<close>

theorem scatter_range_edges_fail:
  "fst (get_scatter_chart heavy_state ''ALL''
          [PyFloat 9007199254740992, PyFloat 9007199254740992]) =
     Inr \<lparr>scatter_title = ''Correlation Between Payload and Success for All Sites'',
          scatter_traces = [\<lparr>trace_name = Some ''v1'', trace_rows = [rows heavy_df ! 1]\<rparr>]\<rparr> \<and>
   Payload_Mass (rows heavy_df ! 1) = Some 9007199254740993 \<and>
   value_of (PyFloat 9007199254740992) \<noteq> 9007199254740993 \<and>
   fst (get_scatter_chart heavy_state ''ALL'' [PyInt 3000, PyInt 3000]) =
     Inr \<lparr>scatter_title = ''Correlation Between Payload and Success for All Sites'',
          scatter_traces = [\<lparr>trace_name = Some ''v2'', trace_rows = [rows heavy_df ! 0]\<rparr>]\<rparr> \<and>
   Payload_Mass (rows heavy_df ! 2) = Some (value_of (PyInt 3000)) \<and>
   rows heavy_df ! 2 \<noteq> rows heavy_df ! 0 \<and>
   fst (get_scatter_chart heavy_state ''ALL''
          [PyInt 9007199254740993, PyFloat 9007199254740992]) =
     Inr \<lparr>scatter_title = ''Correlation Between Payload and Success for All Sites'',
          scatter_traces = [\<lparr>trace_name = Some ''v1'', trace_rows = [rows heavy_df ! 1]\<rparr>]\<rparr> \<and>
   value_of (PyFloat 9007199254740992) < value_of (PyInt 9007199254740993)"
  by (simp add: heavy_float_bounds heavy_equal_bounds heavy_crossed_bounds)
    (simp add: heavy_df_def)

text \<open>
  Claim C10. \<open>get_scatter_chart\<close> first destructures its range as \<open>(low, high)\<close>: it
  fails with the unpacking error exactly when the range does not have two elements,
  whatever the frame holds (so before any filtering), and every two-element range,
  \<open>low > high\<close> included, is accepted and gives a figure on a frame with the four columns.
\<close>

theorem scatter_needs_two_bounds:
  "(fst (get_scatter_chart st site pr) = Inl (ValueError ''unpack'') \<longleftrightarrow> length pr \<noteq> 2) \<and>
   (length pr = 2 \<and>
    set [col_payload, col_site, col_class, col_booster] \<subseteq> set (columns (spacex_df st)) \<longrightarrow>
      (\<exists>fig. fst (get_scatter_chart st site pr) = Inr fig))"
proof (intro conjI impI)
  show "fst (get_scatter_chart st site pr) = Inl (ValueError ''unpack'') \<longleftrightarrow> length pr \<noteq> 2"
    by (rule get_scatter_chart_unpack)
next
  assume a: "length pr = 2 \<and>
    set [col_payload, col_site, col_class, col_booster] \<subseteq> set (columns (spacex_df st))"
  then obtain low high where pr: "pr = [low, high]"
    by (cases pr; simp; cases "tl pr"; auto)
  show "\<exists>fig. fst (get_scatter_chart st site pr) = Inr fig"
    using get_scatter_chart_ok [of st site low high] a by (simp add: pr)
qed

theorem scatter_needs_two_bounds_witness:
  "length [PyInt 3000, PyInt 100] = 2 \<and>
   set [col_payload, col_site, col_class, col_booster]
     \<subseteq> set (columns (spacex_df example_state)) \<and>
   fst (get_scatter_chart example_state ''KSC'' [PyInt 3000, PyInt 100]) \<noteq> Inl (ValueError ''unpack'') \<and>
   (\<exists>fig. fst (get_scatter_chart example_state ''KSC'' [PyInt 3000, PyInt 100]) = Inr fig) \<and>
   fst (get_scatter_chart example_state ''KSC'' [PyInt 0, PyInt 100, PyInt 3000]) = Inl (ValueError ''unpack'') \<and>
   fst (get_scatter_chart example_state ''KSC'' []) = Inl (ValueError ''unpack'')"
  using scatter_needs_two_bounds [of example_state "''KSC''" "[PyInt 3000, PyInt 100]"]
    scatter_needs_two_bounds [of example_state "''KSC''" "[PyInt 0, PyInt 100, PyInt 3000]"]
    scatter_needs_two_bounds [of example_state "''KSC''" "[]"]
    example_columns
  by simp

subsection \<open>The pie chart\<close>

lemma load_pie_columns:
  "load src = Inr st \<Longrightarrow> set [col_site, col_class] \<subseteq> set (columns (spacex_df st))"
  using load_columns [of src st] by simp

text \<open>
  Claim C2. For every loaded dataset and every site selector (so also for every site in
  \<open>{ALL} \<union> distinctSites\<close>), \<open>get_pie_chart\<close> returns a figure, and the counts of its
  slices add up to the number of rows whose launch site is the selected one, which is the
  number of all rows when the selector is \<open>ALL\<close>.
\<close>

theorem pie_counts_sum:
  assumes "load src = Inr st"
  shows "\<exists>fig. fst (get_pie_chart st site) = Inr fig \<and>
           sum_list (map snd (pie_counts (pie_names fig))) =
             length (filter (\<lambda>r. site = ''ALL'' \<or> Launch_Site r = Some site)
                       (rows (spacex_df st))) \<and>
           (site = ''ALL'' \<longrightarrow>
              sum_list (map snd (pie_counts (pie_names fig))) = length (rows (spacex_df st)))"
  using get_pie_chart_ok [OF load_pie_columns [OF assms], of site]
  by (simp add: sum_pie_counts at_site_def)

theorem pie_counts_sum_witness:
  "load example_csv = Inr example_state \<and>
   (\<exists>fig. fst (get_pie_chart example_state ''CCAFS'') = Inr fig \<and>
      sum_list (map snd (pie_counts (pie_names fig))) = 2) \<and>
   (\<exists>fig. fst (get_pie_chart example_state ''ALL'') = Inr fig \<and>
      sum_list (map snd (pie_counts (pie_names fig))) = 3)"
  using pie_counts_sum [OF load_example, of "''CCAFS''"]
    pie_counts_sum [OF load_example, of "''ALL''"] load_example
  by (simp add: example_state_def example_df_def numeral_2_eq_2 numeral_3_eq_3)

text \<open>
  Claim C6. For every site selector, an outcome class that no row of the selection has
  is not a key of the slices of \<open>get_pie_chart\<close>'s figure, and every slice that is
  there has a positive count: no zero-count entry is made up.
\<close>

theorem pie_omits_absent_class:
  assumes "load src = Inr st"
  shows "\<exists>fig. fst (get_pie_chart st site) = Inr fig \<and>
           (\<forall>c. c \<notin> Class ` {r \<in> set (rows (spacex_df st)).
                                site = ''ALL'' \<or> Launch_Site r = Some site} \<longrightarrow>
                c \<notin> fst ` set (pie_counts (pie_names fig))) \<and>
           (\<forall>(c, n)\<in>set (pie_counts (pie_names fig)). 0 < n)"
proof -
  let ?sel = "filter (\<lambda>r. site = ''ALL'' \<or> at_site site r) (rows (spacex_df st))"
  from get_pie_chart_ok [OF load_pie_columns [OF assms], of site]
  obtain fig where fig: "fst (get_pie_chart st site) = Inr fig"
    and names: "pie_names fig = map Class ?sel"
    by simp
  have "fst ` set (pie_counts (pie_names fig)) =
          Class ` {r \<in> set (rows (spacex_df st)). site = ''ALL'' \<or> Launch_Site r = Some site}"
    by (simp add: keys_pie_counts names at_site_def)
  moreover have "\<forall>(c, n)\<in>set (pie_counts (pie_names fig)). 0 < n"
    using pie_counts_positive [of _ _ "pie_names fig"] by blast
  ultimately show ?thesis using fig by blast
qed

theorem pie_omits_absent_class_witness:
  "load example_csv = Inr example_state \<and>
   (\<exists>fig. fst (get_pie_chart example_state ''KSC'') = Inr fig \<and>
      Some 0 \<notin> fst ` set (pie_counts (pie_names fig)) \<and>
      pie_counts (pie_names fig) = [(Some 1, 1)])"
  using pie_omits_absent_class [OF load_example, of "''KSC''"] load_example
    get_pie_chart_ok [OF load_pie_columns [OF load_example], of "''KSC''"]
  by (simp add: example_state_def example_df_def at_site_def pie_counts_def unique_def)

subsection \<open>A site that is not on offer\<close>

text \<open>
  Claim C4. For a site that is neither \<open>ALL\<close> nor one of the launch sites of the loaded
  dataset, both callbacks behave as for no matching rows: \<open>get_pie_chart\<close> returns a
  figure with no label, hence no slice, and \<open>get_scatter_chart\<close>, for every range
  \<open>[low, high]\<close> on a frame that has the booster column, returns a figure with no row.
  Neither raises.
\<close>

theorem unknown_site_gives_empty_charts:
  assumes "load src = Inr st" and "site \<noteq> ''ALL''" and "Some site \<notin> set (launch_sites st)"
  shows "(\<exists>fig. fst (get_pie_chart st site) = Inr fig \<and> pie_names fig = [] \<and>
            pie_counts (pie_names fig) = []) \<and>
         (col_booster \<in> set (columns (spacex_df st)) \<longrightarrow>
            (\<exists>fig. fst (get_scatter_chart st site [low, high]) = Inr fig \<and>
               scatter_frame fig = []))"
proof -
  have "launch_sites st = unique (map Launch_Site (rows (spacex_df st)))"
    using load_fields(4) [OF assms(1)] .
  with assms(3) have none: "\<And>r. r \<in> set (rows (spacex_df st)) \<Longrightarrow> \<not> at_site site r"
    by (force simp: set_unique at_site_def)
  then have sel: "filter (\<lambda>r. site = ''ALL'' \<or> at_site site r) (rows (spacex_df st)) = []"
    using assms(2) by (simp add: filter_empty_conv)
  have pie: "\<exists>fig. fst (get_pie_chart st site) = Inr fig \<and> pie_names fig = [] \<and>
            pie_counts (pie_names fig) = []"
    using get_pie_chart_ok [OF load_pie_columns [OF assms(1)], of site]
    by (simp add: sel pie_counts_def unique_def)
  have sc: "\<exists>fig. fst (get_scatter_chart st site [low, high]) = Inr fig \<and>
              scatter_frame fig = []"
    if "col_booster \<in> set (columns (spacex_df st))"
  proof -
    have cols: "set [col_payload, col_site, col_class, col_booster]
                  \<subseteq> set (columns (spacex_df st))"
      using that load_columns [OF assms(1)] by simp
    have "filter (\<lambda>r. in_range (payload_dtype (spacex_df st)) low high r \<and>
                       (site = ''ALL'' \<or> at_site site r))
            (rows (spacex_df st)) = []"
      using none assms(2) by (simp add: filter_empty_conv)
    then show ?thesis
      using get_scatter_chart_ok [OF cols, of site low high]
      by (simp add: color_groups_Nil scatter_frame_def)
  qed
  from pie sc show ?thesis by blast
qed

theorem unknown_site_gives_empty_charts_witness:
  "load example_csv = Inr example_state \<and> ''VAFB'' \<noteq> ''ALL'' \<and>
   Some ''VAFB'' \<notin> set (launch_sites example_state) \<and>
   col_booster \<in> set (columns (spacex_df example_state)) \<and>
   (\<exists>fig. fst (get_pie_chart example_state ''VAFB'') = Inr fig \<and> pie_names fig = [] \<and>
      pie_counts (pie_names fig) = []) \<and>
   (\<exists>fig. fst (get_scatter_chart example_state ''VAFB'' [PyInt 0, PyInt 10000]) = Inr fig \<and>
      scatter_frame fig = [])"
proof -
  have a: "''VAFB'' \<noteq> ''ALL''" by simp
  have b: "Some ''VAFB'' \<notin> set (launch_sites example_state)"
    by (simp add: example_state_def)
  have c: "col_booster \<in> set (columns (spacex_df example_state))"
    using example_columns by simp
  show ?thesis
    using unknown_site_gives_empty_charts [OF load_example a b, of "PyInt 0" "PyInt 10000"] load_example a b c
    by simp
qed

subsection \<open>Effects of the callbacks\<close>

text \<open>A callback appends one entry to the log and changes nothing else; its result
  reads the frame only.\<close>

lemma get_pie_chart_frame:
  "spacex_df (snd (get_pie_chart st site)) = spacex_df st"
  "max_payload (snd (get_pie_chart st site)) = max_payload st"
  "min_payload (snd (get_pie_chart st site)) = min_payload st"
  "launch_sites (snd (get_pie_chart st site)) = launch_sites st"
  "log (snd (get_pie_chart st site)) = log st @ [PieDebug site]"
  by (simp_all add: get_pie_chart_def Let_def)

lemma get_scatter_chart_state:
  "snd (get_scatter_chart st site pr) = st\<lparr>log := log st @ [ScatterDebug site pr]\<rparr>"
  by (simp add: get_scatter_chart_def Let_def split: list.splits)

lemma get_scatter_chart_frame:
  "spacex_df (snd (get_scatter_chart st site pr)) = spacex_df st"
  "max_payload (snd (get_scatter_chart st site pr)) = max_payload st"
  "min_payload (snd (get_scatter_chart st site pr)) = min_payload st"
  "launch_sites (snd (get_scatter_chart st site pr)) = launch_sites st"
  "log (snd (get_scatter_chart st site pr)) = log st @ [ScatterDebug site pr]"
  by (simp_all add: get_scatter_chart_state)

lemma handle_frame:
  "spacex_df (snd (handle st q)) = spacex_df st"
  "max_payload (snd (handle st q)) = max_payload st"
  "min_payload (snd (handle st q)) = min_payload st"
  "launch_sites (snd (handle st q)) = launch_sites st"
  using get_pie_chart_frame [of st] get_scatter_chart_frame [of st]
  by (cases q; simp add: split_beta)+

lemma serve_snd_Cons: "snd (serve st (q # qs)) = snd (serve (snd (handle st q)) qs)"
  by (simp add: split_beta)

lemma serve_frame:
  "spacex_df (snd (serve st qs)) = spacex_df st \<and>
   max_payload (snd (serve st qs)) = max_payload st \<and>
   min_payload (snd (serve st qs)) = min_payload st \<and>
   launch_sites (snd (serve st qs)) = launch_sites st"
proof (induction qs arbitrary: st)
  case Nil
  show ?case by simp
next
  case (Cons q qs)
  show ?case
    using Cons [of "snd (handle st q)"] handle_frame [of st q]
    by (simp only: serve_snd_Cons)
qed

lemma get_pie_chart_depends:
  "spacex_df st = spacex_df st' \<Longrightarrow> fst (get_pie_chart st site) = fst (get_pie_chart st' site)"
  by (simp add: get_pie_chart_def Let_def)

lemma get_scatter_chart_depends:
  "spacex_df st = spacex_df st' \<Longrightarrow>
     fst (get_scatter_chart st site pr) = fst (get_scatter_chart st' site pr)"
  by (simp add: get_scatter_chart_def Let_def split: list.splits)

text \<open>
  Claim C7. The results of \<open>get_pie_chart\<close> and \<open>get_scatter_chart\<close> are functions of
  the dataset and the filter selection alone: a second call with the same inputs gives
  the result of the first, so does a call made after any sequence of other requests,
  and two states with the same frame give the same results whatever else they hold
  (the log included).
\<close>

theorem callbacks_deterministic:
  "fst (get_pie_chart (snd (get_pie_chart st site)) site) = fst (get_pie_chart st site) \<and>
   fst (get_scatter_chart (snd (get_scatter_chart st site pr)) site pr) =
     fst (get_scatter_chart st site pr) \<and>
   fst (get_pie_chart (snd (serve st qs)) site) = fst (get_pie_chart st site) \<and>
   fst (get_scatter_chart (snd (serve st qs)) site pr) = fst (get_scatter_chart st site pr) \<and>
   (spacex_df st' = spacex_df st \<longrightarrow>
      fst (get_pie_chart st' site) = fst (get_pie_chart st site) \<and>
      fst (get_scatter_chart st' site pr) = fst (get_scatter_chart st site pr))"
proof (intro conjI impI)
  show "fst (get_pie_chart (snd (get_pie_chart st site)) site) = fst (get_pie_chart st site)"
    by (rule get_pie_chart_depends) (rule get_pie_chart_frame)
  show "fst (get_scatter_chart (snd (get_scatter_chart st site pr)) site pr) =
          fst (get_scatter_chart st site pr)"
    by (rule get_scatter_chart_depends) (rule get_scatter_chart_frame)
  show "fst (get_pie_chart (snd (serve st qs)) site) = fst (get_pie_chart st site)"
    by (rule get_pie_chart_depends) (simp add: serve_frame)
  show "fst (get_scatter_chart (snd (serve st qs)) site pr) = fst (get_scatter_chart st site pr)"
    by (rule get_scatter_chart_depends) (simp add: serve_frame)
next
  assume "spacex_df st' = spacex_df st"
  then show "fst (get_pie_chart st' site) = fst (get_pie_chart st site)"
    by (rule get_pie_chart_depends)
next
  assume "spacex_df st' = spacex_df st"
  then show "fst (get_scatter_chart st' site pr) = fst (get_scatter_chart st site pr)"
    by (rule get_scatter_chart_depends)
qed

theorem callbacks_deterministic_witness:
  "spacex_df (example_state\<lparr>log := []\<rparr>) = spacex_df example_state \<and>
   example_state\<lparr>log := []\<rparr> \<noteq> example_state \<and>
   fst (get_pie_chart (example_state\<lparr>log := []\<rparr>) ''KSC'') =
     fst (get_pie_chart example_state ''KSC'') \<and>
   fst (get_scatter_chart (example_state\<lparr>log := []\<rparr>) ''KSC'' [PyInt 0, PyInt 5000]) =
     fst (get_scatter_chart example_state ''KSC'' [PyInt 0, PyInt 5000]) \<and>
   fst (get_pie_chart
          (snd (serve example_state [ScatterRequest ''ALL'' [PyInt 0, PyInt 1], PieRequest ''KSC'']))
          ''KSC'') =
     fst (get_pie_chart example_state ''KSC'')"
proof -
  have a: "spacex_df (example_state\<lparr>log := []\<rparr>) = spacex_df example_state"
    by simp
  have b: "example_state\<lparr>log := []\<rparr> \<noteq> example_state"
    by (simp add: example_state_def)
  show ?thesis
    using callbacks_deterministic
            [of example_state "''KSC''" "[PyInt 0, PyInt 5000]"
                "[ScatterRequest ''ALL'' [PyInt 0, PyInt 1], PieRequest ''KSC'']"
                "example_state\<lparr>log := []\<rparr>"] a b
    by simp
qed

text \<open>
  Claim C9. No call of \<open>get_pie_chart\<close> or \<open>get_scatter_chart\<close>, and no sequence of
  such calls with any filter selections, changes the loaded dataset: the frame, the
  payload bounds and the list of launch sites are those of load time.
\<close>

theorem callbacks_preserve_dataset:
  "spacex_df (snd (get_pie_chart st site)) = spacex_df st \<and>
   max_payload (snd (get_pie_chart st site)) = max_payload st \<and>
   min_payload (snd (get_pie_chart st site)) = min_payload st \<and>
   launch_sites (snd (get_pie_chart st site)) = launch_sites st \<and>
   spacex_df (snd (get_scatter_chart st site pr)) = spacex_df st \<and>
   max_payload (snd (get_scatter_chart st site pr)) = max_payload st \<and>
   min_payload (snd (get_scatter_chart st site pr)) = min_payload st \<and>
   launch_sites (snd (get_scatter_chart st site pr)) = launch_sites st \<and>
   spacex_df (snd (serve st qs)) = spacex_df st \<and>
   max_payload (snd (serve st qs)) = max_payload st \<and>
   min_payload (snd (serve st qs)) = min_payload st \<and>
   launch_sites (snd (serve st qs)) = launch_sites st"
  using serve_frame [of st qs]
  by (simp add: get_pie_chart_frame get_scatter_chart_frame)

theorem callbacks_preserve_dataset_witness:
  "spacex_df (snd (serve example_state [PieRequest ''KSC'', ScatterRequest ''ALL'' [PyInt 0]])) =
     example_df \<and>
   launch_sites (snd (serve example_state [PieRequest ''KSC'', ScatterRequest ''ALL'' [PyInt 0]])) =
     [Some ''CCAFS'', Some ''KSC''] \<and>
   log (snd (serve example_state [PieRequest ''KSC'', ScatterRequest ''ALL'' [PyInt 0]])) =
     log example_state @ [PieDebug ''KSC'', ScatterDebug ''ALL'' [PyInt 0]]"
proof -
  have "log (snd (serve example_state [PieRequest ''KSC'', ScatterRequest ''ALL'' [PyInt 0]])) =
     log example_state @ [PieDebug ''KSC'', ScatterDebug ''ALL'' [PyInt 0]]"
    by (simp add: split_beta get_pie_chart_frame get_scatter_chart_frame)
  then show ?thesis
    using callbacks_preserve_dataset
            [of example_state "''KSC''" "[PyInt 0]" "[PieRequest ''KSC'', ScatterRequest ''ALL'' [PyInt 0]]"]
    by (simp add: example_state_def)
qed

subsection \<open>Startup\<close>

text \<open>A load fails on a source that cannot be read or that lacks one of the three
  cleaned columns, and then with the error of \<^verbatim>\<open>read_csv\<close> or with the KeyError of
  \<^verbatim>\<open>dropna\<close> that names the missing columns.\<close>

lemma load_Inl:
  assumes "src = Unreadable \<or>
           (\<exists>df. src = Parsed df \<and>
              \<not> set [col_payload, col_site, col_class] \<subseteq> set (columns df))"
  shows "\<exists>e. load src = Inl e \<and>
           (src = Unreadable \<longrightarrow> e = ReadError) \<and>
           (\<forall>df. src = Parsed df \<longrightarrow>
              e = KeyError (filter (\<lambda>c. c \<notin> set (columns df))
                              [col_payload, col_site, col_class]))"
proof (cases src)
  case Unreadable
  then show ?thesis by (simp add: load_def read_csv_def)
next
  case (Parsed df)
  with assms have "filter (\<lambda>c. c \<notin> set (columns df)) [col_payload, col_site, col_class] \<noteq> []"
    by (auto simp: filter_empty_conv)
  then show ?thesis
    by (auto simp: Parsed load_def read_csv_def dropna_def split: list.splits)
qed

text \<open>
  Claim C8, as the code has it. If the source file is missing or unreadable, or lacks one
  of the columns Payload Mass (kg), Launch Site and class, startup fails with the error
  of the data load (that of reading the file, or the KeyError of the cleaning that names
  the missing columns), and the process does not go on to serve requests, whatever the
  web framework would have done. The booster column is not among the columns whose
  absence stops the start.
\<close>

theorem startup_fails_on_bad_source:
  assumes "src = Unreadable \<or>
           (\<exists>df. src = Parsed df \<and>
              \<not> set [col_payload, col_site, col_class] \<subseteq> set (columns df))"
  shows "\<exists>e. load src = Inl e \<and> startup src run_exc = Crashed e \<and>
           (src = Unreadable \<longrightarrow> e = ReadError) \<and>
           (\<forall>df. src = Parsed df \<longrightarrow>
              e = KeyError (filter (\<lambda>c. c \<notin> set (columns df))
                              [col_payload, col_site, col_class])) \<and>
           (\<forall>st. startup src run_exc \<noteq> Serving st)"
proof -
  from load_Inl [OF assms] obtain e where e: "load src = Inl e"
    and kinds: "src = Unreadable \<longrightarrow> e = ReadError"
      "\<forall>df. src = Parsed df \<longrightarrow>
         e = KeyError (filter (\<lambda>c. c \<notin> set (columns df)) [col_payload, col_site, col_class])"
    by blast
  from e have "startup src run_exc = Crashed e"
    by (simp add: startup_def)
  with e kinds show ?thesis by auto
qed

theorem startup_fails_on_bad_source_witness:
  "startup Unreadable None = Crashed ReadError \<and>
   startup (Parsed \<lparr>columns = [''Launch Site'', ''Payload Mass (kg)''],
                    payload_dtype = Int64, rows = []\<rparr>) None =
     Crashed (KeyError [''class''])"
proof -
  let ?src = "Parsed \<lparr>columns = [''Launch Site'', ''Payload Mass (kg)''],
                      payload_dtype = Int64, rows = []\<rparr>"
  have a: "Unreadable = Unreadable \<or>
           (\<exists>df. Unreadable = Parsed df \<and>
              \<not> set [col_payload, col_site, col_class] \<subseteq> set (columns df))"
    by simp
  have b: "?src = Unreadable \<or>
           (\<exists>df. ?src = Parsed df \<and>
              \<not> set [col_payload, col_site, col_class] \<subseteq> set (columns df))"
    by (simp add: col_defs)
  from startup_fails_on_bad_source [OF a, of None] startup_fails_on_bad_source [OF b, of None]
  show ?thesis
    by (auto simp: col_defs)
qed

text \<open>
  Claim C8, as stated, fails: a source file with the three cleaned columns and without
  Booster Version Category loads, and the process serves from it when the web framework
  starts; the missing column shows only later, when \<open>get_scatter_chart\<close> raises on a
  request.
\<close>

theorem startup_without_booster_column:
  "no_booster_csv =
     Parsed \<lparr>columns = [''Launch Site'', ''Payload Mass (kg)'', ''class''],
             payload_dtype = Float64,
             rows = example_rows\<rparr> \<and>
   col_booster \<notin> set [''Launch Site'', ''Payload Mass (kg)'', ''class''] \<and>
   startup no_booster_csv None =
     Serving (example_state
                \<lparr>spacex_df := example_df
                   \<lparr>columns := [''Launch Site'', ''Payload Mass (kg)'', ''class'']\<rparr>\<rparr>) \<and>
   fst (get_scatter_chart
          (example_state
             \<lparr>spacex_df := example_df
                \<lparr>columns := [''Launch Site'', ''Payload Mass (kg)'', ''class'']\<rparr>\<rparr>)
          ''ALL'' [PyInt 0, PyInt 10000]) = Inl (ValueError col_booster)"
  by (simp add: startup_def load_def read_csv_def no_booster_csv_def dropna_def col_defs
      example_rows_def complete_def unique_def example_state_def example_df_def Let_def
      numeral_3_eq_3 get_scatter_chart_def px_scatter_def)

end
